theory Spec2Isabelle
  imports Complex_Main "HOL-Library.AList"
begin

section \<open>Data model\<close>

text \<open>
  The notebook is Python over numpy, scipy and menpo. Numbers held in numpy arrays are
  idealised as reals; a two-dimensional array is the list of its rows; a path is the list
  of its parts, as \<^verbatim>\<open>pathlib\<close> keeps it.
\<close>

type_synonym path = "string list"

type_synonym matrix = "real list list"

datatype error =
    ValueError
  | IndexError
  | KeyError
  | ImageLoadError path
  | MatLoadError path
  | RescaleError
  | FeatureError

text \<open>
  A menpo image: the extent of its pixel grid (height, width), its pixel data, left
  abstract, and its landmark groups in insertion order.
\<close>

record 'p image =
  shape :: "nat \<times> nat"
  pixels :: 'p
  landmarks :: "(string \<times> matrix) list"

text \<open>A menpo \<^verbatim>\<open>TriMesh\<close>: one row of \<open>points\<close> per vertex, one row of \<open>trilist\<close> per triangle.\<close>

record trimesh =
  points :: matrix
  trilist :: matrix

text \<open>The transform that \<^verbatim>\<open>return_transform=True\<close> hands back; only its \<^verbatim>\<open>scale\<close> is read.\<close>

record transform =
  tr_scale :: "real list"

text \<open>
  What the process can observe and change: the image files and the \<^verbatim>\<open>.mat\<close> files on
  disk (as what \<^verbatim>\<open>mio.import_image\<close> and \<^verbatim>\<open>sio.loadmat\<close> decode from them), the
  one-entry cache that \<^verbatim>\<open>@lru_cache(1)\<close> puts around \<^verbatim>\<open>load_trilist\<close>, and a counter of
  the runs of the body of \<^verbatim>\<open>load_trilist\<close> that returned.
\<close>

record 'p state =
  image_files :: "path \<rightharpoonup> 'p image"
  mat_files :: "path \<rightharpoonup> (string \<rightharpoonup> matrix)"
  trilist_cache :: "matrix option"
  trilist_loads :: nat

text \<open>
  The collaborators the notebook imports and never defines, as parameters: the home
  directory that \<^verbatim>\<open>expanduser\<close> substitutes, \<^verbatim>\<open>Image.as_greyscale\<close>, which raises on
  an image it cannot convert (menpo refuses one that is not RGB), the resampling of a
  pixel grid by a scale factor (new extent and new pixels), and the dense feature
  \<^verbatim>\<open>fast_dsift\<close>.
\<close>

record 'p env =
  home :: path
  as_greyscale :: "'p image \<Rightarrow> error + 'p image"
  resample :: "real \<Rightarrow> 'p image \<Rightarrow> (nat \<times> nat) \<times> 'p"
  fast_dsift :: "'p image \<Rightarrow> error + 'p image"

section \<open>Configuration (cell 2)\<close>

definition DATA_PATH :: "'p env \<Rightarrow> path" where
  "DATA_PATH env = home env @ [''Dropbox'', ''itwmm_src_data'']"

definition DIAGONAL_RANGE :: real where
  "DIAGONAL_RANGE = 180"

definition FEATURE_F :: "'p env \<Rightarrow> 'p image \<Rightarrow> error + 'p image" where
  "FEATURE_F env = fast_dsift env"

section \<open>Dataset loader (cell 3)\<close>

definition import_image :: "'p state \<Rightarrow> path \<Rightarrow> error + 'p image" where
  "import_image s p = (case image_files s p of None \<Rightarrow> Inl (ImageLoadError p) | Some i \<Rightarrow> Inr i)"

definition loadmat :: "'p state \<Rightarrow> path \<Rightarrow> error + (string \<rightharpoonup> matrix)" where
  "loadmat s p = (case mat_files s p of None \<Rightarrow> Inl (MatLoadError p) | Some m \<Rightarrow> Inr m)"

definition model_info_path :: "'p env \<Rightarrow> path" where
  "model_info_path env =
     DATA_PATH env @ [''300W-3D'', ''Code'', ''ModelGeneration'', ''model_info.mat'']"

text \<open>
  The body of \<^verbatim>\<open>load_trilist\<close>: read \<^verbatim>\<open>model_info.mat\<close>, take \<^verbatim>\<open>'tri'\<close>, pick the
  rows 1, 0, 2 (an \<^verbatim>\<open>IndexError\<close> when there are fewer than three), transpose, subtract 1.
\<close>

definition load_trilist_body :: "'p env \<Rightarrow> 'p state \<Rightarrow> error + matrix" where
  "load_trilist_body env s =
     (case loadmat s (model_info_path env) of
        Inl e \<Rightarrow> Inl e
      | Inr m \<Rightarrow>
          (case m ''tri'' of
             None \<Rightarrow> Inl KeyError
           | Some tri \<Rightarrow>
               if length tri < 3 then Inl IndexError
               else Inr (map (map (\<lambda>x. x - 1)) (transpose [tri ! 1, tri ! 0, tri ! 2]))))"

text \<open>
  \<^verbatim>\<open>@lru_cache(1)\<close> on a function without arguments: a hit returns the stored value and
  runs nothing; a miss runs the body and stores the value only when the body returns
  (an exception is not cached).
\<close>

definition load_trilist :: "'p env \<Rightarrow> 'p state \<Rightarrow> (error + matrix) \<times> 'p state" where
  "load_trilist env s =
     (case trilist_cache s of
        Some t \<Rightarrow> (Inr t, s)
      | None \<Rightarrow>
          (case load_trilist_body env s of
             Inl e \<Rightarrow> (Inl e, s)
           | Inr t \<Rightarrow>
               (Inr t, s\<lparr>trilist_cache := Some t, trilist_loads := trilist_loads s + 1\<rparr>)))"

text \<open>
  The local \<^verbatim>\<open>img_points_3d\<close> of \<^verbatim>\<open>convert_raw_3d_fit_to_img_trimesh_fit\<close>:
  \<^verbatim>\<open>raw_3d_fit[:2][::-1].copy() - 1\<close>, then row 0 replaced by
  \<^verbatim>\<open>img.shape[0] - img_points_2d[0]\<close> (an \<^verbatim>\<open>IndexError\<close> on an array without rows), then
  \<^verbatim>\<open>raw_3d_fit[2] * -1\<close> stacked below (an \<^verbatim>\<open>IndexError\<close> on fewer than three rows), then
  the transpose.
\<close>

definition img_points_3d :: "matrix \<Rightarrow> 'p image \<Rightarrow> error + matrix" where
  "img_points_3d raw_3d_fit img =
     (case map (map (\<lambda>x. x - 1)) (rev (take 2 raw_3d_fit)) of
        [] \<Rightarrow> Inl IndexError
      | r0 # rs \<Rightarrow>
          (let img_points_2d = map (\<lambda>x. real (fst (shape img)) - x) r0 # rs
           in if length raw_3d_fit < 3 then Inl IndexError
              else Inr (transpose (img_points_2d @ [map (\<lambda>x. x * (- 1)) (raw_3d_fit ! 2)]))))"

definition convert_raw_3d_fit_to_img_trimesh_fit ::
  "'p env \<Rightarrow> matrix \<Rightarrow> 'p image \<Rightarrow> 'p state \<Rightarrow> (error + trimesh) \<times> 'p state" where
  "convert_raw_3d_fit_to_img_trimesh_fit env raw_3d_fit img s =
     (case img_points_3d raw_3d_fit img of
        Inl e \<Rightarrow> (Inl e, s)
      | Inr pts \<Rightarrow>
          (case load_trilist env s of
             (Inl e, s') \<Rightarrow> (Inl e, s')
           | (Inr t, s') \<Rightarrow> (Inr \<lparr>points = pts, trilist = t\<rparr>, s')))"

subsection \<open>Paths\<close>

text \<open>
  \<^verbatim>\<open>PurePath.relative_to\<close>: the parts after \<open>base\<close>, a \<^verbatim>\<open>ValueError\<close> when \<open>base\<close> is
  not a prefix of the parts.
\<close>

definition relative_to :: "path \<Rightarrow> path \<Rightarrow> error + path" where
  "relative_to p base =
     (if take (length base) p = base then Inr (drop (length base) p) else Inl ValueError)"

text \<open>\<^verbatim>\<open>str.rfind\<close> of one character: the highest index that holds it.\<close>

definition rfind :: "char \<Rightarrow> string \<Rightarrow> nat option" where
  "rfind c name =
     (case filter (\<lambda>i. name ! i = c) (rev [0..<length name]) of [] \<Rightarrow> None | i # _ \<Rightarrow> Some i)"

text \<open>
  \<^verbatim>\<open>PurePath.suffix\<close>: from the last dot of the name on, when that dot is neither the
  first nor the last character; empty otherwise.
\<close>

definition path_suffix :: "string \<Rightarrow> string" where
  "path_suffix name =
     (case rfind CHR ''.'' name of
        None \<Rightarrow> []
      | Some i \<Rightarrow> if 0 < i \<and> i < length name - 1 then drop i name else [])"

text \<open>
  \<^verbatim>\<open>PurePath.with_suffix\<close>: a \<^verbatim>\<open>ValueError\<close> on a suffix that holds a separator, does
  not start with a dot or is a lone dot, and on a path with an empty name; otherwise the
  old suffix of the name is cut and the new one appended.
\<close>

definition with_suffix :: "path \<Rightarrow> string \<Rightarrow> error + path" where
  "with_suffix p suf =
     (if CHR ''/'' \<in> set suf \<or> (suf \<noteq> [] \<and> hd suf \<noteq> CHR ''.'') \<or> suf = ''.'' then Inl ValueError
      else if p = [] \<or> last p = [] then Inl ValueError
      else let name = last p; old_suffix = path_suffix name
           in Inr (butlast p @ [take (length name - length old_suffix) name @ suf]))"

text \<open>The first two lines of \<^verbatim>\<open>load_img_and_fit\<close>: where the fit of an image lives.\<close>

definition fit_path_of :: "'p env \<Rightarrow> path \<Rightarrow> error + path" where
  "fit_path_of env img_path =
     (case relative_to img_path (DATA_PATH env @ [''300W-3D'']) of
        Inl e \<Rightarrow> Inl e
      | Inr rel \<Rightarrow>
          (case with_suffix rel ''.mat'' of
             Inl e \<Rightarrow> Inl e
           | Inr fit_rel_path \<Rightarrow> Inr (DATA_PATH env @ [''300W-3D-Face''] @ fit_rel_path)))"

text \<open>
  \<^verbatim>\<open>load_img_and_fit\<close>: the image is imported and converted to greyscale before the fit
  file is read, so an image that cannot be read or converted raises first.
\<close>

definition load_img_and_fit ::
  "'p env \<Rightarrow> path \<Rightarrow> 'p state \<Rightarrow> (error + ('p image \<times> trimesh)) \<times> 'p state" where
  "load_img_and_fit env img_path s =
     (case fit_path_of env img_path of
        Inl e \<Rightarrow> (Inl e, s)
      | Inr fit_path \<Rightarrow>
          (case import_image s img_path of
             Inl e \<Rightarrow> (Inl e, s)
           | Inr raw_img \<Rightarrow>
               (case as_greyscale env raw_img of
                  Inl e \<Rightarrow> (Inl e, s)
                | Inr img \<Rightarrow>
                    (case loadmat s fit_path of
                       Inl e \<Rightarrow> (Inl e, s)
                     | Inr m \<Rightarrow>
                         (case m ''Fitted_Face'' of
                            None \<Rightarrow> (Inl KeyError, s)
                          | Some raw_3d_fit \<Rightarrow>
                              (case convert_raw_3d_fit_to_img_trimesh_fit env raw_3d_fit img s of
                                 (Inl e, s') \<Rightarrow> (Inl e, s')
                               | (Inr fit_trimesh_3d, s') \<Rightarrow>
                                   (Inr (img, fit_trimesh_3d), s')))))))"

section \<open>Normalization and feature extraction (cell 3)\<close>

definition column :: "nat \<Rightarrow> matrix \<Rightarrow> real list" where
  "column j m = map (\<lambda>r. r ! j) m"

definition extent :: "real list \<Rightarrow> real" where
  "extent xs = Max (set xs) - Min (set xs)"

text \<open>The diagonal of the bounding box of a set of 2D points, one point per row.\<close>

definition diagonal_2d :: "matrix \<Rightarrow> real" where
  "diagonal_2d pts = sqrt ((extent (column 0 pts))\<^sup>2 + (extent (column 1 pts))\<^sup>2)"

definition scale_points :: "real \<Rightarrow> matrix \<Rightarrow> matrix" where
  "scale_points k pts = map (map (\<lambda>x. k * x)) pts"

text \<open>
  Modelled from the spec: menpo's \<^verbatim>\<open>Image.rescale_landmarks_to_diagonal_range\<close> is
  imported by the notebook, not defined in it. Section 4.2 of the specification: the step
  "rescales both so the mesh's 2D projection spans a fixed diagonal pixel range (a
  configured constant), recomputing the fit's depth coordinate by the same scale factor".
  So there is one scale factor, the requested diagonal over the present one; the image is
  resampled by it and the landmarks are multiplied by it. The transform handed back is
  the one the warp used, which takes the rescaled frame back to the source frame: its
  scale is the reciprocal of the factor, and the notebook divides by it. Without a group
  argument the only landmark group is used (none or several is a \<^verbatim>\<open>ValueError\<close>); the
  bounds of an empty point set are a \<^verbatim>\<open>ValueError\<close>; a point set of diagonal zero has no
  finite scale factor and no rescaled image.
\<close>

definition rescale_landmarks_to_diagonal_range ::
  "'p env \<Rightarrow> 'p image \<Rightarrow> real \<Rightarrow> error + ('p image \<times> transform)" where
  "rescale_landmarks_to_diagonal_range env img diagonal_range =
     (case landmarks img of
        [(grp, pts)] \<Rightarrow>
          if pts = [] then Inl ValueError
          else if diagonal_2d pts = 0 then Inl RescaleError
          else (let k = diagonal_range / diagonal_2d pts;
                    (shp, px) = resample env k img
                in Inr (\<lparr>shape = shp, pixels = px, landmarks = [(grp, scale_points k pts)]\<rparr>,
                        \<lparr>tr_scale = [1 / k, 1 / k]\<rparr>))
      | _ \<Rightarrow> Inl ValueError)"

text \<open>
  \<^verbatim>\<open>points[:, :2] = new_2d\<close> on a copy: the first two columns of every row replaced (a
  \<^verbatim>\<open>ValueError\<close> when the row counts differ), and \<^verbatim>\<open>points[:, 2] = points[:, 2] / d\<close>.
\<close>

definition assign_2d :: "matrix \<Rightarrow> matrix \<Rightarrow> error + matrix" where
  "assign_2d pts new_2d =
     (if length new_2d = length pts then Inr (map2 (\<lambda>l r. l @ drop 2 r) new_2d pts)
      else Inl ValueError)"

definition divide_column_2 :: "matrix \<Rightarrow> real \<Rightarrow> matrix" where
  "divide_column_2 pts d = map (\<lambda>r. r[2 := r ! 2 / d]) pts"

definition load_data_with_feature_sample ::
  "'p env \<Rightarrow> path \<Rightarrow> real \<Rightarrow> 'p state \<Rightarrow> (error + ('p image \<times> 'p image \<times> trimesh)) \<times> 'p state"
  where
  "load_data_with_feature_sample env img_path err_proportion s =
     (case load_img_and_fit env img_path s of
        (Inl e, s') \<Rightarrow> (Inl e, s')
      | (Inr (img0, fit_trimesh_3d), s') \<Rightarrow>
          (let img1 = img0\<lparr>landmarks :=
                        AList.update ''fit_2d'' (map (take 2) (points fit_trimesh_3d)) (landmarks img0)\<rparr>
           in case rescale_landmarks_to_diagonal_range env img1 DIAGONAL_RANGE of
                Inl e \<Rightarrow> (Inl e, s')
              | Inr (img, tr) \<Rightarrow>
                  (case map_of (landmarks img) ''fit_2d'' of
                     None \<Rightarrow> (Inl KeyError, s')
                   | Some new_2d \<Rightarrow>
                       (case assign_2d (points fit_trimesh_3d) new_2d of
                          Inl e \<Rightarrow> (Inl e, s')
                        | Inr pts \<Rightarrow>
                            (case tr_scale tr of
                               [] \<Rightarrow> (Inl IndexError, s')
                             | d # _ \<Rightarrow>
                                 (case FEATURE_F env img of
                                    Inl e \<Rightarrow> (Inl e, s')
                                  | Inr feat \<Rightarrow>
                                      (Inr (img, feat,
                                            fit_trimesh_3d\<lparr>points := divide_column_2 pts d\<rparr>),
                                       s')))))))"

section \<open>Lazy sample sequence (cells 4 and 6)\<close>

text \<open>
  Modelled from the spec: menpo's \<^verbatim>\<open>LazyList\<close> is imported by the notebook, not defined
  in it. Section 4.3 of the specification: "a lazy, finite, restartable sequence ...
  computed on demand per index rather than eagerly materialized", that "supports slicing to
  a bounded prefix". A lazy list is the list of its delayed computations. Building one, mapping
  a function over one and slicing one run none of them; indexing runs the one at that
  position, each time it is asked, and hands its result or its exception to the caller.
  A delayed computation here is a function of the process state.
\<close>

datatype ('s, 'a) lazy_list = LazyList (callables: "('s \<Rightarrow> (error + 'a) \<times> 's) list")

definition init_from_iterable :: "'a list \<Rightarrow> ('s, 'a) lazy_list" where
  "init_from_iterable xs = LazyList (map (\<lambda>x s. (Inr x, s)) xs)"

definition lazy_map ::
  "('a \<Rightarrow> 's \<Rightarrow> (error + 'b) \<times> 's) \<Rightarrow> ('s, 'a) lazy_list \<Rightarrow> ('s, 'b) lazy_list" where
  "lazy_map f l =
     LazyList (map (\<lambda>c s. case c s of (Inl e, s') \<Rightarrow> (Inl e, s') | (Inr x, s') \<Rightarrow> f x s')
                   (callables l))"

text \<open>Indexing with a Python integer: a negative index counts from the end.\<close>

definition getitem :: "('s, 'a) lazy_list \<Rightarrow> int \<Rightarrow> 's \<Rightarrow> (error + 'a) \<times> 's" where
  "getitem l i s =
     (let n = int (length (callables l)); j = (if i < 0 then n + i else i)
      in if 0 \<le> j \<and> j < n then (callables l ! nat j) s else (Inl IndexError, s))"

definition slice_to :: "('s, 'a) lazy_list \<Rightarrow> nat \<Rightarrow> ('s, 'a) lazy_list" where
  "slice_to l n = LazyList (take n (callables l))"

text \<open>
  Cell 4: \<^verbatim>\<open>LazyList.init_from_iterable(img_paths).map(load_data_with_feature_sample)\<close>;
  the mapped function gets the path only, so \<^verbatim>\<open>err_proportion\<close> takes its default.
\<close>

definition imgs_features_and_fits ::
  "'p env \<Rightarrow> path list \<Rightarrow> ('p state, 'p image \<times> 'p image \<times> trimesh) lazy_list" where
  "imgs_features_and_fits env img_paths =
     lazy_map (\<lambda>p. load_data_with_feature_sample env p (1 / 10000)) (init_from_iterable img_paths)"

text \<open>Cell 6: \<^verbatim>\<open>imgs_features_and_fits.map(lambda x: x[1:])\<close>.\<close>

definition features_and_fits ::
  "'p env \<Rightarrow> path list \<Rightarrow> ('p state, 'p image \<times> trimesh) lazy_list" where
  "features_and_fits env img_paths =
     lazy_map (\<lambda>x s. (Inr (snd x), s)) (imgs_features_and_fits env img_paths)"

section \<open>A process\<close>

text \<open>
  A process starts with an empty cache. What happens in it, as far as the loader is
  concerned: an image and its fit are loaded, a sample is loaded, or the files on disk
  change under it. \<open>produced\<close> collects the meshes the loader hands out on the way.
\<close>

definition initial_state ::
  "(path \<rightharpoonup> 'p image) \<Rightarrow> (path \<rightharpoonup> (string \<rightharpoonup> matrix)) \<Rightarrow> 'p state" where
  "initial_state imgs mats =
     \<lparr>image_files = imgs, mat_files = mats, trilist_cache = None, trilist_loads = 0\<rparr>"



text \<open>
  The connectivity a call of \<open>load_trilist\<close> gives in a state: the cached one, or else what
  the body computes from the file.
\<close>

definition effective_trilist :: "'p env \<Rightarrow> 'p state \<Rightarrow> error + matrix" where
  "effective_trilist env s =
     (case trilist_cache s of Some t \<Rightarrow> Inr t | None \<Rightarrow> load_trilist_body env s)"

text \<open>The state after the elements at the positions \<open>js\<close> were asked for, one after the other.\<close>

fun access_all :: "('s, 'a) lazy_list \<Rightarrow> int list \<Rightarrow> 's \<Rightarrow> 's" where
  "access_all l [] s = s"
| "access_all l (j # js) s = access_all l js (snd (getitem l j s))"

section \<open>Model export (cell 14)\<close>

text \<open>What the exported dictionary can hold: the texture model, a number, a function.\<close>

datatype ('p, 'm) py_value =
    Model 'm
  | Number real
  | Function "'p image \<Rightarrow> error + 'p image"

text \<open>
  The dictionary literal of cell 14, in the order it is written, and the file it goes to.
  The diagonal is the literal \<^verbatim>\<open>180\<close> and the function the name \<^verbatim>\<open>fast_dsift\<close>, as in the
  cell, not the constants of cell 2.
\<close>

definition exported_object :: "'p env \<Rightarrow> 'm \<Rightarrow> (string \<times> ('p, 'm) py_value) list" where
  "exported_object env itw_texture_model =
     [(''texture_model'', Model itw_texture_model),
      (''diagonal_range'', Number 180),
      (''feature_function'', Function (fast_dsift env))]"

definition export_path :: "'p env \<Rightarrow> path" where
  "export_path env = DATA_PATH env @ [''itw_texture_model.pkl'']"

section \<open>32-bit features (cell 9)\<close>

text \<open>
  \<^verbatim>\<open>as_float32\<close> is about which object is written to, so here images and arrays live in
  a store. An array has an element type and its elements; an image object refers to its
  pixel array and has its other fields. An object is referred to by its position in the
  store, and a new object goes to the end.
\<close>

datatype dtype = Float64 | Float32 | UInt8

record ndarray =
  dtype :: dtype
  dims :: "nat list"
  elems :: "real list"

record 'o image_obj =
  pixels_ref :: nat
  other_fields :: 'o

record 'o store =
  arrays :: "ndarray list"
  image_objs :: "'o image_obj list"

definition deref :: "'a list \<Rightarrow> nat \<Rightarrow> 'a option" where
  "deref xs a = (if a < length xs then Some (xs ! a) else None)"

definition alloc_array :: "'o store \<Rightarrow> ndarray \<Rightarrow> nat \<times> 'o store" where
  "alloc_array h a = (length (arrays h), h\<lparr>arrays := arrays h @ [a]\<rparr>)"

definition alloc_image :: "'o store \<Rightarrow> 'o image_obj \<Rightarrow> nat \<times> 'o store" where
  "alloc_image h i = (length (image_objs h), h\<lparr>image_objs := image_objs h @ [i]\<rparr>)"

text \<open>
  \<^verbatim>\<open>img.copy()\<close>: a new image object whose pixel array is a new array with the same
  content, and whose other fields are copies.
\<close>

definition copy_image :: "'o store \<Rightarrow> nat \<Rightarrow> (nat \<times> 'o store) option" where
  "copy_image h img =
     (case deref (image_objs h) img of
        None \<Rightarrow> None
      | Some i \<Rightarrow>
          (case deref (arrays h) (pixels_ref i) of
             None \<Rightarrow> None
           | Some a \<Rightarrow>
               (case alloc_array h a of
                  (p, h1) \<Rightarrow> Some (alloc_image h1 (i\<lparr>pixels_ref := p\<rparr>)))))"

text \<open>
  \<^verbatim>\<open>arr.astype(t)\<close>: a new array of element type \<open>t\<close>, each element converted by
  \<open>cast t\<close>, the rounding to that type, which is a parameter.
\<close>

definition astype ::
  "(dtype \<Rightarrow> real \<Rightarrow> real) \<Rightarrow> 'o store \<Rightarrow> nat \<Rightarrow> dtype \<Rightarrow> (nat \<times> 'o store) option" where
  "astype cast h arr t =
     (case deref (arrays h) arr of
        None \<Rightarrow> None
      | Some a \<Rightarrow> Some (alloc_array h (a\<lparr>dtype := t, elems := map (cast t) (elems a)\<rparr>)))"

text \<open>\<^verbatim>\<open>img.pixels = p\<close>: the attribute of the object at \<open>img\<close> set to refer to \<open>p\<close>.\<close>

definition set_pixels :: "'o store \<Rightarrow> nat \<Rightarrow> nat \<Rightarrow> 'o store option" where
  "set_pixels h img p =
     (case deref (image_objs h) img of
        None \<Rightarrow> None
      | Some i \<Rightarrow> Some (h\<lparr>image_objs := (image_objs h)[img := i\<lparr>pixels_ref := p\<rparr>]\<rparr>))"

definition as_float32 ::
  "(dtype \<Rightarrow> real \<Rightarrow> real) \<Rightarrow> 'o store \<Rightarrow> nat \<Rightarrow> (nat \<times> 'o store) option" where
  "as_float32 cast h img =
     (case copy_image h img of
        None \<Rightarrow> None
      | Some (img', h1) \<Rightarrow>
          (case deref (image_objs h1) img' of
             None \<Rightarrow> None
           | Some i \<Rightarrow>
               (case astype cast h1 (pixels_ref i) Float32 of
                  None \<Rightarrow> None
                | Some (p, h2) \<Rightarrow>
                    (case set_pixels h2 img' p of
                       None \<Rightarrow> None
                     | Some h3 \<Rightarrow> Some (img', h3)))))"

section \<open>Well-formed inputs and a small data set\<close>

text \<open>A numpy array is rectangular; a list of rows has to be told so.\<close>

definition rectangular :: "matrix \<Rightarrow> bool" where
  "rectangular m \<longleftrightarrow> (\<forall>r \<in> set m. length r = length (hd m))"

definition arrays_rectangular :: "'p state \<Rightarrow> bool" where
  "arrays_rectangular s \<longleftrightarrow>
     (\<forall>p vars k a. mat_files s p = Some vars \<longrightarrow> vars k = Some a \<longrightarrow> rectangular a)"


text \<open>
  A data set of images of 150 rows and 100 columns with fits of three vertices each, and a
  connectivity of one triangle. The pixel data of an image is stood for by its number of
  channels. Greyscale conversion takes three channels to one and raises on anything else,
  resampling rounds the scaled extent up, the feature has eight channels on the grid of
  its input.
\<close>

definition ex_env :: "nat env" where
  "ex_env =
     \<lparr>home = [''home'', ''user''],
      as_greyscale = (\<lambda>img. if pixels img = 3 then Inr (img\<lparr>pixels := 1\<rparr>) else Inl ValueError),
      resample = (\<lambda>k img. ((nat \<lceil>k * real (fst (shape img))\<rceil>, nat \<lceil>k * real (snd (shape img))\<rceil>),
                            pixels img)),
      fast_dsift = (\<lambda>img. Inr (img\<lparr>pixels := 8\<rparr>))\<rparr>"


definition ex_image :: "nat image" where
  "ex_image = \<lparr>shape = (150, 100), pixels = 3, landmarks = []\<rparr>"

definition ex_grey :: "nat image" where
  "ex_grey = \<lparr>shape = (150, 100), pixels = 1, landmarks = []\<rparr>"

definition ex_path_a :: path where
  "ex_path_a = [''home'', ''user'', ''Dropbox'', ''itwmm_src_data'', ''300W-3D'', ''AFW'', ''a.jpg'']"

definition ex_path_b :: path where
  "ex_path_b = [''home'', ''user'', ''Dropbox'', ''itwmm_src_data'', ''300W-3D'', ''AFW'', ''b.jpg'']"

definition ex_path_c :: path where
  "ex_path_c = [''home'', ''user'', ''Dropbox'', ''itwmm_src_data'', ''300W-3D'', ''AFW'', ''c.jpg'']"

text \<open>
  Image \<open>c\<close> has no fit file. The fit of image \<open>d\<close> reaches past the right edge of its
  image. Image \<open>e\<close> has one channel and no fit file.
\<close>

definition ex_path_d :: path where
  "ex_path_d = [''home'', ''user'', ''Dropbox'', ''itwmm_src_data'', ''300W-3D'', ''AFW'', ''d.jpg'']"

definition ex_path_e :: path where
  "ex_path_e = [''home'', ''user'', ''Dropbox'', ''itwmm_src_data'', ''300W-3D'', ''AFW'', ''e.jpg'']"

definition ex_mats :: "path \<rightharpoonup> (string \<rightharpoonup> matrix)" where
  "ex_mats =
     [[''home'', ''user'', ''Dropbox'', ''itwmm_src_data'', ''300W-3D-Face'', ''AFW'', ''a.mat'']
        \<mapsto> [''Fitted_Face'' \<mapsto> [[1, 55, 28], [2, 74, 38], [0, 10, 5]]],
      [''home'', ''user'', ''Dropbox'', ''itwmm_src_data'', ''300W-3D-Face'', ''AFW'', ''d.mat'']
        \<mapsto> [''Fitted_Face'' \<mapsto> [[51, 105, 78], [2, 74, 38], [0, 10, 5]]],
      [''home'', ''user'', ''Dropbox'', ''itwmm_src_data'', ''300W-3D-Face'', ''AFW'', ''b.mat'']
        \<mapsto> [''Fitted_Face'' \<mapsto> [[1, 109, 55], [2, 146, 74], [0, 10, 5]]],
      [''home'', ''user'', ''Dropbox'', ''itwmm_src_data'', ''300W-3D'', ''Code'',
       ''ModelGeneration'', ''model_info.mat'']
        \<mapsto> [''tri'' \<mapsto> [[1], [2], [3]]]]"

definition ex_images :: "path \<rightharpoonup> nat image" where
  "ex_images =
     [ex_path_a \<mapsto> ex_image, ex_path_b \<mapsto> ex_image, ex_path_c \<mapsto> ex_image,
      ex_path_d \<mapsto> ex_image, ex_path_e \<mapsto> ex_grey]"

definition ex_state :: "nat state" where
  "ex_state = initial_state ex_images ex_mats"


definition ex_state_loaded :: "nat state" where
  "ex_state_loaded = ex_state\<lparr>trilist_cache := Some [[1, 0, 2]], trilist_loads := 1\<rparr>"


section \<open>Notions for the proofs\<close>

text \<open>Two states that every call of the loader treats alike.\<close>

definition alike :: "'p env \<Rightarrow> 'p state \<Rightarrow> 'p state \<Rightarrow> bool" where
  "alike env s s2 \<longleftrightarrow>
     image_files s2 = image_files s \<and> mat_files s2 = mat_files s \<and>
     effective_trilist env s2 = effective_trilist env s"






section \<open>The coordinate conversion\<close>

lemma transpose_three_rows:
  assumes "length r0 = n" "length r1 = n" "length r2 = n"
  shows "transpose [r0, r1, r2] = map (\<lambda>j. [r0 ! j, r1 ! j, r2 ! j]) [0..<n]"
proof -
  have "transpose [r0, r1, r2] =
          map (\<lambda>i. map (\<lambda>j. [r0, r1, r2] ! j ! i) [0..<length [r0, r1, r2]]) [0..<n]"
  proof (rule transpose_rectangle)
    fix i assume "i < length [r0, r1, r2]"
    then have "i = 0 \<or> i = 1 \<or> i = 2" by auto
    then show "length ([r0, r1, r2] ! i) = n" using assms by auto
  qed simp
  moreover have "[0..<length [r0, r1, r2]] = [0, 1, 2]"
    by (simp add: upt_rec)
  ultimately show ?thesis by simp
qed

lemma img_points_3d_rows:
  assumes "3 \<le> length raw_3d_fit"
    and "length (raw_3d_fit ! 0) = n" "length (raw_3d_fit ! 1) = n" "length (raw_3d_fit ! 2) = n"
  shows "img_points_3d raw_3d_fit img =
           Inr (map (\<lambda>j. [real (fst (shape img)) - (raw_3d_fit ! 1 ! j - 1),
                           raw_3d_fit ! 0 ! j - 1,
                           - (raw_3d_fit ! 2 ! j)]) [0..<n])"
proof -
  obtain a b c rest where raw: "raw_3d_fit = a # b # c # rest"
    using assms(1) by (auto simp: numeral_3_eq_3 Suc_le_length_iff)
  have len: "length a = n" "length b = n" "length c = n"
    using assms(2-4) by (simp_all add: raw)
  have "img_points_3d raw_3d_fit img =
          Inr (transpose [map (\<lambda>x. real (fst (shape img)) - x) (map (\<lambda>x. x - 1) b),
                          map (\<lambda>x. x - 1) a, map (\<lambda>x. x * (- 1)) c])"
    by (simp add: img_points_3d_def raw)
  also have "\<dots> = Inr (map (\<lambda>j. [map (\<lambda>x. real (fst (shape img)) - x) (map (\<lambda>x. x - 1) b) ! j,
                                  map (\<lambda>x. x - 1) a ! j, map (\<lambda>x. x * (- 1)) c ! j]) [0..<n])"
    using len by (simp add: transpose_three_rows [where n = n])
  also have "\<dots> = Inr (map (\<lambda>j. [real (fst (shape img)) - (b ! j - 1), a ! j - 1, - (c ! j)]) [0..<n])"
    using len by simp
  finally show ?thesis by (simp add: raw)
qed

lemma upt_3: "[0..<3] = [0, 1, 2]"
  by (simp add: upt_rec)

lemma ex_load_trilist:
  "load_trilist ex_env ex_state =
     (Inr [[1, 0, 2]], ex_state\<lparr>trilist_cache := Some [[1, 0, 2]], trilist_loads := 1\<rparr>)"
  by (simp add: load_trilist_def load_trilist_body_def loadmat_def model_info_path_def
      DATA_PATH_def ex_env_def ex_state_def ex_mats_def initial_state_def)

text \<open>
  Claim C4. On a raw fit with at least three rows of \<open>n\<close> entries each, the conversion
  gives, for the raw column \<open>(a, b, c)\<close> at position \<open>j\<close> and an image of height \<open>H\<close>, the
  vertex \<open>(H - (b - 1), a - 1, - c)\<close>: the first two rows swapped, 1 subtracted, the
  vertical axis turned against the height, the depth negated. The mesh is built with the
  connectivity that \<open>load_trilist\<close> returns, and the conversion fails only when that fails.
\<close>

theorem convert_raw_3d_fit_vertices:
  assumes "3 \<le> length raw_3d_fit"
    and "length (raw_3d_fit ! 0) = n" "length (raw_3d_fit ! 1) = n" "length (raw_3d_fit ! 2) = n"
  shows "convert_raw_3d_fit_to_img_trimesh_fit env raw_3d_fit img s =
           (case load_trilist env s of
              (Inl e, s') \<Rightarrow> (Inl e, s')
            | (Inr t, s') \<Rightarrow>
                (Inr \<lparr>points = map (\<lambda>j. [real (fst (shape img)) - (raw_3d_fit ! 1 ! j - 1),
                                          raw_3d_fit ! 0 ! j - 1,
                                          - (raw_3d_fit ! 2 ! j)]) [0..<n],
                      trilist = t\<rparr>, s'))"
  unfolding convert_raw_3d_fit_to_img_trimesh_fit_def img_points_3d_rows [OF assms]
  by (simp only: sum.case)

theorem convert_raw_3d_fit_vertices_witness:
  "3 \<le> length [[1, 109, 55], [2, 146, 74], [0, 10, 5 :: real]] \<and>
   length ([[1, 109, 55], [2, 146, 74], [0, 10, 5 :: real]] ! 0) = 3 \<and>
   length ([[1, 109, 55], [2, 146, 74], [0, 10, 5 :: real]] ! 1) = 3 \<and>
   length ([[1, 109, 55], [2, 146, 74], [0, 10, 5 :: real]] ! 2) = 3 \<and>
   convert_raw_3d_fit_to_img_trimesh_fit ex_env [[1, 109, 55], [2, 146, 74], [0, 10, 5]] ex_image ex_state =
     (Inr \<lparr>points = [[149, 0, 0], [5, 108, - 10], [77, 54, - 5]], trilist = [[1, 0, 2]]\<rparr>,
      ex_state\<lparr>trilist_cache := Some [[1, 0, 2]], trilist_loads := 1\<rparr>)"
  using convert_raw_3d_fit_vertices [of "[[1, 109, 55], [2, 146, 74], [0, 10, 5]]" 3 ex_env ex_image ex_state]
  by (simp add: ex_load_trilist upt_3 ex_image_def)

section \<open>Helper facts\<close>

lemma rectangular_nth: "rectangular m \<Longrightarrow> i < length m \<Longrightarrow> length (m ! i) = length (hd m)"
  by (simp add: rectangular_def)

lemma update_singleton:
  assumes "AList.update k v al = [(g, pts)]"
  shows "g = k \<and> pts = v"
proof (cases al)
  case Nil
  with assms show ?thesis by simp
next
  case (Cons p ps)
  with assms show ?thesis
    by (cases "fst p = k") (simp_all add: update_nonempty)
qed

lemma extent_scale:
  assumes "0 \<le> k" "xs \<noteq> []"
  shows "extent (map (\<lambda>x. k * x) xs) = k * extent xs"
proof -
  have m: "mono (\<lambda>x. k * x)"
    using assms(1) by (simp add: mono_def mult_left_mono)
  have fin: "finite (set xs)" "set xs \<noteq> {}"
    using assms(2) by simp_all
  have "Max (set (map (\<lambda>x. k * x) xs)) = k * Max (set xs)"
    using mono_Max_commute [OF m fin] by simp
  moreover have "Min (set (map (\<lambda>x. k * x) xs)) = k * Min (set xs)"
    using mono_Min_commute [OF m fin] by simp
  ultimately show ?thesis
    by (simp add: extent_def right_diff_distrib)
qed

lemma column_scale:
  assumes "\<forall>r \<in> set pts. j < length r"
  shows "column j (scale_points k pts) = map (\<lambda>x. k * x) (column j pts)"
  using assms by (simp add: column_def scale_points_def)

lemma diagonal_scale:
  assumes "0 \<le> k" "pts \<noteq> []" "\<forall>r \<in> set pts. length r = 2"
  shows "diagonal_2d (scale_points k pts) = k * diagonal_2d pts"
proof -
  have c0: "column 0 (scale_points k pts) = map (\<lambda>x. k * x) (column 0 pts)"
    using assms(3) by (intro column_scale) simp
  have c1: "column 1 (scale_points k pts) = map (\<lambda>x. k * x) (column 1 pts)"
    using assms(3) by (intro column_scale) simp
  have ne: "column 0 pts \<noteq> []" "column 1 pts \<noteq> []"
    using assms(2) by (simp_all add: column_def)
  have "diagonal_2d (scale_points k pts) =
          sqrt ((k * extent (column 0 pts))\<^sup>2 + (k * extent (column 1 pts))\<^sup>2)"
    unfolding diagonal_2d_def c0 c1 extent_scale [OF assms(1) ne(1)] extent_scale [OF assms(1) ne(2)]
    by (rule refl)
  also have "\<dots> = sqrt (k\<^sup>2 * ((extent (column 0 pts))\<^sup>2 + (extent (column 1 pts))\<^sup>2))"
    by (simp add: power_mult_distrib distrib_left)
  also have "\<dots> = k * diagonal_2d pts"
    using assms(1) by (simp add: real_sqrt_mult diagonal_2d_def)
  finally show ?thesis .
qed

lemma load_img_and_fit_rows:
  assumes "arrays_rectangular s"
    and "load_img_and_fit env p s = (Inr (img0, fit0), s1)"
  shows "\<forall>r \<in> set (points fit0). length r = 3"
proof -
  from assms(2) obtain fit_path m raw_3d_fit where
    m: "mat_files s fit_path = Some m" and raw: "m ''Fitted_Face'' = Some raw_3d_fit"
    and conv: "convert_raw_3d_fit_to_img_trimesh_fit env raw_3d_fit img0 s = (Inr fit0, s1)"
    by (auto simp: load_img_and_fit_def loadmat_def Let_def
        split: sum.splits option.splits prod.splits)
  have rect: "rectangular raw_3d_fit"
    using assms(1) m raw by (auto simp: arrays_rectangular_def)
  from conv obtain pts where pts: "img_points_3d raw_3d_fit img0 = Inr pts" and "points fit0 = pts"
    by (auto simp: convert_raw_3d_fit_to_img_trimesh_fit_def split: sum.splits prod.splits)
  have len: "3 \<le> length raw_3d_fit"
    using pts by (auto simp: img_points_3d_def Let_def split: list.splits if_splits)
  have "length (raw_3d_fit ! 0) = length (hd raw_3d_fit)"
    "length (raw_3d_fit ! 1) = length (hd raw_3d_fit)"
    "length (raw_3d_fit ! 2) = length (hd raw_3d_fit)"
    using len by (auto intro!: rectangular_nth [OF rect])
  from img_points_3d_rows [OF len this, of img0] pts \<open>points fit0 = pts\<close>
  show ?thesis by auto
qed

lemma rescale_success:
  assumes "rescale_landmarks_to_diagonal_range env img1 d = Inr (img, tr)"
  shows "\<exists>g pts. landmarks img1 = [(g, pts)] \<and> pts \<noteq> [] \<and> diagonal_2d pts \<noteq> 0 \<and>
           landmarks img = [(g, scale_points (d / diagonal_2d pts) pts)] \<and>
           shape img = fst (resample env (d / diagonal_2d pts) img1) \<and>
           pixels img = snd (resample env (d / diagonal_2d pts) img1) \<and>
           tr_scale tr = [1 / (d / diagonal_2d pts), 1 / (d / diagonal_2d pts)]"
  using assms
  by (auto simp: rescale_landmarks_to_diagonal_range_def Let_def
      split: list.splits prod.splits if_splits)

lemma rescaled_rows:
  assumes "\<forall>r \<in> set pts. length r = 3"
  shows "divide_column_2 (map2 (\<lambda>l r. l @ drop 2 r) (scale_points k (map (take 2) pts)) pts) (1 / k)
           = scale_points k pts"
proof -
  have row: "(map ((*) k) (take 2 r) @ drop 2 r)[2 := (map ((*) k) (take 2 r) @ drop 2 r) ! 2 / (1 / k)]
               = map ((*) k) r" if "length r = 3" for r :: "real list"
  proof -
    from that obtain y x z where "r = [y, x, z]"
      by (auto simp: numeral_3_eq_3 length_Suc_conv)
    then show ?thesis by simp
  qed
  have "divide_column_2 (map2 (\<lambda>l r. l @ drop 2 r) (scale_points k (map (take 2) pts)) pts) (1 / k)
          = map (\<lambda>r. (map ((*) k) (take 2 r) @ drop 2 r)
                        [2 := (map ((*) k) (take 2 r) @ drop 2 r) ! 2 / (1 / k)]) pts"
    by (simp add: divide_column_2_def scale_points_def zip_map1 zip_same_conv_map)
  also have "\<dots> = map (map ((*) k)) pts"
    using assms by (intro map_cong refl row) simp
  finally show ?thesis by (simp add: scale_points_def)
qed

lemma sample_structure:
  assumes rect: "arrays_rectangular s"
    and load: "load_img_and_fit env p s = (Inr (img0, fit0), s1)"
    and sample: "load_data_with_feature_sample env p e s = (Inr (img, feat, fit), s')"
  defines "k \<equiv> DIAGONAL_RANGE / diagonal_2d (map (take 2) (points fit0))"
  shows "points fit = scale_points k (points fit0)"
    and "trilist fit = trilist fit0"
    and "s' = s1"
    and "landmarks img = [(''fit_2d'', scale_points k (map (take 2) (points fit0)))]"
    and "FEATURE_F env img = Inr feat"
    and "points fit0 \<noteq> []"
    and "diagonal_2d (map (take 2) (points fit0)) \<noteq> 0"
proof -
  let ?P2 = "map (take 2) (points fit0)"
  let ?img1 = "img0\<lparr>landmarks := AList.update ''fit_2d'' ?P2 (landmarks img0)\<rparr>"
  from sample load obtain tr new_2d pts d ds where
    resc: "rescale_landmarks_to_diagonal_range env ?img1 DIAGONAL_RANGE = Inr (img, tr)"
    and new_2d: "map_of (landmarks img) ''fit_2d'' = Some new_2d"
    and asg: "assign_2d (points fit0) new_2d = Inr pts"
    and d: "tr_scale tr = d # ds"
    and feat: "FEATURE_F env img = Inr feat"
    and fit: "fit = fit0\<lparr>points := divide_column_2 pts d\<rparr>"
    and s': "s' = s1"
    by (auto simp: load_data_with_feature_sample_def Let_def
        split: sum.splits option.splits list.splits prod.splits)
  from rescale_success [OF resc] obtain g pts0 where
    lm1: "landmarks ?img1 = [(g, pts0)]" and ne: "pts0 \<noteq> []" and dg: "diagonal_2d pts0 \<noteq> 0"
    and lm: "landmarks img = [(g, scale_points (DIAGONAL_RANGE / diagonal_2d pts0) pts0)]"
    and tr: "tr_scale tr = [1 / (DIAGONAL_RANGE / diagonal_2d pts0), 1 / (DIAGONAL_RANGE / diagonal_2d pts0)]"
    by blast
  from lm1 have "AList.update ''fit_2d'' ?P2 (landmarks img0) = [(g, pts0)]" by simp
  from update_singleton [OF this] have g: "g = ''fit_2d''" and pts0: "pts0 = ?P2" by simp_all
  have k: "DIAGONAL_RANGE / diagonal_2d pts0 = k" by (simp add: k_def pts0)
  show "landmarks img = [(''fit_2d'', scale_points k ?P2)]"
    using lm by (simp add: g k) (simp add: pts0)
  then have "new_2d = scale_points k ?P2" using new_2d by simp
  with asg have pts: "pts = map2 (\<lambda>l r. l @ drop 2 r) (scale_points k ?P2) (points fit0)"
    by (auto simp: assign_2d_def split: if_splits)
  have dk: "d = 1 / k" using d tr by (simp add: k)
  show "points fit = scale_points k (points fit0)"
    using rescaled_rows [OF load_img_and_fit_rows [OF rect load], of k]
    by (simp add: fit pts dk)
  show "trilist fit = trilist fit0" by (simp add: fit)
  show "s' = s1" by (fact s')
  show "FEATURE_F env img = Inr feat" by (fact feat)
  show "points fit0 \<noteq> []" using ne pts0 by auto
  show "diagonal_2d ?P2 \<noteq> 0" using dg pts0 by simp
qed

lemma ex_fit_path_a:
  "fit_path_of ex_env ex_path_a =
     Inr [''home'', ''user'', ''Dropbox'', ''itwmm_src_data'', ''300W-3D-Face'', ''AFW'', ''a.mat'']"
  by code_simp

lemma ex_fit_path_b:
  "fit_path_of ex_env ex_path_b =
     Inr [''home'', ''user'', ''Dropbox'', ''itwmm_src_data'', ''300W-3D-Face'', ''AFW'', ''b.mat'']"
  by code_simp

lemma ex_img_points_a:
  "img_points_3d [[1, 55, 28], [2, 74, 38], [0, 10, 5]] ex_grey =
     Inr [[149, 0, 0], [77, 54, - 10], [113, 27, - 5]]"
  using img_points_3d_rows [of "[[1, 55, 28], [2, 74, 38], [0, 10, 5]]" 3 ex_grey]
  by (simp add: upt_3 ex_grey_def)

lemma ex_img_points_b:
  "img_points_3d [[1, 109, 55], [2, 146, 74], [0, 10, 5]] ex_grey =
     Inr [[149, 0, 0], [5, 108, - 10], [77, 54, - 5]]"
  using img_points_3d_rows [of "[[1, 109, 55], [2, 146, 74], [0, 10, 5]]" 3 ex_grey]
  by (simp add: upt_3 ex_grey_def)


lemma ex_greyscale:
  "as_greyscale ex_env ex_image = Inr ex_grey"
  "as_greyscale ex_env ex_grey = Inl ValueError"
  by (simp_all add: ex_env_def ex_image_def ex_grey_def)

lemma ex_import:
  "import_image ex_state ex_path_a = Inr ex_image"
  "import_image ex_state ex_path_b = Inr ex_image"
  "import_image ex_state ex_path_d = Inr ex_image"
  by (simp_all add: import_image_def ex_state_def initial_state_def ex_images_def ex_path_a_def
      ex_path_b_def ex_path_c_def ex_path_d_def ex_path_e_def)

lemma ex_loadmat_a:
  "loadmat ex_state [''home'', ''user'', ''Dropbox'', ''itwmm_src_data'', ''300W-3D-Face'', ''AFW'', ''a.mat'']
     = Inr [''Fitted_Face'' \<mapsto> [[1, 55, 28], [2, 74, 38], [0, 10, 5]]]"
  by (simp add: loadmat_def ex_state_def initial_state_def ex_mats_def)

lemma ex_loadmat_b:
  "loadmat ex_state [''home'', ''user'', ''Dropbox'', ''itwmm_src_data'', ''300W-3D-Face'', ''AFW'', ''b.mat'']
     = Inr [''Fitted_Face'' \<mapsto> [[1, 109, 55], [2, 146, 74], [0, 10, 5]]]"
  by (simp add: loadmat_def ex_state_def initial_state_def ex_mats_def)


lemma ex_load_a:
  "load_img_and_fit ex_env ex_path_a ex_state =
     (Inr (ex_grey, \<lparr>points = [[149, 0, 0], [77, 54, - 10], [113, 27, - 5]], trilist = [[1, 0, 2]]\<rparr>),
      ex_state_loaded)"
proof -
  note g = ex_greyscale(1)
  show ?thesis
    by (simp add: load_img_and_fit_def ex_fit_path_a ex_import ex_loadmat_a g
        convert_raw_3d_fit_to_img_trimesh_fit_def ex_img_points_a ex_load_trilist
        ex_state_loaded_def)
qed

lemma ex_load_b:
  "load_img_and_fit ex_env ex_path_b ex_state =
     (Inr (ex_grey, \<lparr>points = [[149, 0, 0], [5, 108, - 10], [77, 54, - 5]], trilist = [[1, 0, 2]]\<rparr>),
      ex_state_loaded)"
proof -
  note g = ex_greyscale(1)
  show ?thesis
    by (simp add: load_img_and_fit_def ex_fit_path_b ex_import ex_loadmat_b g
        convert_raw_3d_fit_to_img_trimesh_fit_def ex_img_points_b ex_load_trilist
        ex_state_loaded_def)
qed

lemma ex_diagonal_a: "diagonal_2d [[149, 0], [77, 54], [113, 27]] = 90"
proof -
  have "sqrt 8100 = 90" by (rule real_sqrt_unique) simp_all
  then show ?thesis by (simp add: diagonal_2d_def column_def extent_def)
qed

lemma ex_diagonal_b: "diagonal_2d [[149, 0], [5, 108], [77, 54]] = 180"
proof -
  have "sqrt 32400 = 180" by (rule real_sqrt_unique) simp_all
  then show ?thesis by (simp add: diagonal_2d_def column_def extent_def)
qed

lemma ex_feature: "FEATURE_F ex_env img = Inr (img\<lparr>pixels := 8\<rparr>)"
  by (simp add: FEATURE_F_def ex_env_def)

lemma ex_resample:
  "resample ex_env k img =
     ((nat \<lceil>k * real (fst (shape img))\<rceil>, nat \<lceil>k * real (snd (shape img))\<rceil>), pixels img)"
  by (simp add: ex_env_def)

lemma ex_sample_a:
  "load_data_with_feature_sample ex_env ex_path_a e ex_state =
     (Inr (\<lparr>shape = (300, 200), pixels = 1, landmarks = [(''fit_2d'', [[298, 0], [154, 108], [226, 54]])]\<rparr>,
           \<lparr>shape = (300, 200), pixels = 8, landmarks = [(''fit_2d'', [[298, 0], [154, 108], [226, 54]])]\<rparr>,
           \<lparr>points = [[298, 0, 0], [154, 108, - 20], [226, 54, - 10]], trilist = [[1, 0, 2]]\<rparr>),
      ex_state_loaded)"
  by (simp add: load_data_with_feature_sample_def ex_load_a
      rescale_landmarks_to_diagonal_range_def ex_grey_def ex_diagonal_a ex_feature ex_resample
      DIAGONAL_RANGE_def scale_points_def assign_2d_def divide_column_2_def)

lemma ex_sample_b:
  "load_data_with_feature_sample ex_env ex_path_b e ex_state =
     (Inr (\<lparr>shape = (150, 100), pixels = 1, landmarks = [(''fit_2d'', [[149, 0], [5, 108], [77, 54]])]\<rparr>,
           \<lparr>shape = (150, 100), pixels = 8, landmarks = [(''fit_2d'', [[149, 0], [5, 108], [77, 54]])]\<rparr>,
           \<lparr>points = [[149, 0, 0], [5, 108, - 10], [77, 54, - 5]], trilist = [[1, 0, 2]]\<rparr>),
      ex_state_loaded)"
  by (simp add: load_data_with_feature_sample_def ex_load_b
      rescale_landmarks_to_diagonal_range_def ex_grey_def ex_diagonal_b ex_feature ex_resample
      DIAGONAL_RANGE_def scale_points_def assign_2d_def divide_column_2_def)





lemma ex_rectangular: "arrays_rectangular ex_state"
  by (auto simp: arrays_rectangular_def ex_state_def ex_mats_def initial_state_def rectangular_def
      split: if_splits)

lemma sample_needs_load:
  assumes "load_data_with_feature_sample env p e s = (Inr (img, feat, fit), s')"
  shows "\<exists>img0 fit0 s1. load_img_and_fit env p s = (Inr (img0, fit0), s1)"
  using assms
  by (auto simp: load_data_with_feature_sample_def split: sum.splits prod.splits)

lemma take_2_scale_points: "map (take 2) (scale_points k pts) = scale_points k (map (take 2) pts)"
  by (simp add: scale_points_def take_map)

text \<open>
  Claim C1. For every sample that \<open>load_data_with_feature_sample\<close> produces from
  rectangular arrays, the diagonal of the bounding box of the first two coordinate columns
  of the mesh is \<open>DIAGONAL_RANGE\<close>, which is 180. The arithmetic is that of the reals.
\<close>

theorem normalized_diagonal:
  assumes "arrays_rectangular s"
    and "load_data_with_feature_sample env p e s = (Inr (img, feat, fit), s')"
  shows "diagonal_2d (map (take 2) (points fit)) = DIAGONAL_RANGE"
proof -
  from sample_needs_load [OF assms(2)] obtain img0 fit0 s1 where
    load: "load_img_and_fit env p s = (Inr (img0, fit0), s1)" by blast
  let ?P2 = "map (take 2) (points fit0)"
  let ?k = "DIAGONAL_RANGE / diagonal_2d ?P2"
  note st = sample_structure [OF assms(1) load assms(2)]
  have rows: "\<forall>r \<in> set ?P2. length r = 2"
    using load_img_and_fit_rows [OF assms(1) load] by auto
  have "0 \<le> diagonal_2d ?P2" by (simp add: diagonal_2d_def)
  then have k: "0 \<le> ?k" by (simp add: DIAGONAL_RANGE_def)
  have ne: "?P2 \<noteq> []" using st(6) by simp
  have "diagonal_2d (map (take 2) (points fit)) = diagonal_2d (scale_points ?k ?P2)"
    by (simp only: st(1) take_2_scale_points)
  also have "\<dots> = ?k * diagonal_2d ?P2"
    by (rule diagonal_scale [OF k ne rows])
  also have "\<dots> = DIAGONAL_RANGE"
    using st(7) by simp
  finally show ?thesis .
qed

theorem normalized_diagonal_witness:
  "arrays_rectangular ex_state \<and>
   load_data_with_feature_sample ex_env ex_path_a (1 / 10000) ex_state =
     (Inr (\<lparr>shape = (300, 200), pixels = 1, landmarks = [(''fit_2d'', [[298, 0], [154, 108], [226, 54]])]\<rparr>,
           \<lparr>shape = (300, 200), pixels = 8, landmarks = [(''fit_2d'', [[298, 0], [154, 108], [226, 54]])]\<rparr>,
           \<lparr>points = [[298, 0, 0], [154, 108, - 20], [226, 54, - 10]], trilist = [[1, 0, 2]]\<rparr>),
      ex_state_loaded) \<and>
   diagonal_2d (map (take 2) [[298, 0, 0], [154, 108, - 20], [226, 54, - 10]]) = 180"
  using normalized_diagonal [OF ex_rectangular ex_sample_a [of "1 / 10000"]] ex_rectangular
    ex_sample_a [of "1 / 10000"]
  by (simp add: DIAGONAL_RANGE_def)

text \<open>
  Claim C2. For every sample produced, with \<open>k\<close> the factor of the rescale (the diagonal
  constant over the diagonal of the loaded fit): every coordinate of every vertex of the
  loaded fit is multiplied by \<open>k\<close>, so the 2D points \<open>p\<close> go to \<open>k * p\<close>, and each output
  depth is \<open>k\<close> times the input depth.
\<close>

theorem depth_scaled_with_2d:
  assumes "arrays_rectangular s"
    and "load_img_and_fit env p s = (Inr (img0, fit0), s1)"
    and "load_data_with_feature_sample env p e s = (Inr (img, feat, fit), s')"
  shows "points fit =
           scale_points (DIAGONAL_RANGE / diagonal_2d (map (take 2) (points fit0))) (points fit0) \<and>
         (\<forall>j < length (points fit0).
            points fit ! j ! 2 =
              DIAGONAL_RANGE / diagonal_2d (map (take 2) (points fit0)) * (points fit0 ! j ! 2))"
proof (intro conjI allI impI)
  note st = sample_structure [OF assms]
  show a: "points fit =
           scale_points (DIAGONAL_RANGE / diagonal_2d (map (take 2) (points fit0))) (points fit0)"
    by (fact st(1))
  fix j assume j: "j < length (points fit0)"
  then have "length (points fit0 ! j) = 3"
    using load_img_and_fit_rows [OF assms(1,2)] by simp
  then show "points fit ! j ! 2 =
             DIAGONAL_RANGE / diagonal_2d (map (take 2) (points fit0)) * (points fit0 ! j ! 2)"
    using j by (simp add: a scale_points_def)
qed

theorem depth_scaled_with_2d_witness:
  "arrays_rectangular ex_state \<and>
   load_img_and_fit ex_env ex_path_a ex_state =
     (Inr (ex_grey, \<lparr>points = [[149, 0, 0], [77, 54, - 10], [113, 27, - 5]], trilist = [[1, 0, 2]]\<rparr>),
      ex_state_loaded) \<and>
   load_data_with_feature_sample ex_env ex_path_a (1 / 10000) ex_state =
     (Inr (\<lparr>shape = (300, 200), pixels = 1, landmarks = [(''fit_2d'', [[298, 0], [154, 108], [226, 54]])]\<rparr>,
           \<lparr>shape = (300, 200), pixels = 8, landmarks = [(''fit_2d'', [[298, 0], [154, 108], [226, 54]])]\<rparr>,
           \<lparr>points = [[298, 0, 0], [154, 108, - 20], [226, 54, - 10]], trilist = [[1, 0, 2]]\<rparr>),
      ex_state_loaded) \<and>
   [[298, 0, 0], [154, 108, - 20], [226, 54, - 10]] =
     scale_points (180 / 90) [[149, 0, 0], [77, 54, - 10], [113, 27, - 5]] \<and>
   [[298, 0, 0], [154, 108, - 20], [226, 54, - 10 :: real]] ! 1 ! 2 = 180 / 90 * (- 10)"
  using depth_scaled_with_2d [OF ex_rectangular ex_load_a ex_sample_a [of "1 / 10000"]]
    ex_rectangular ex_load_a ex_sample_a [of "1 / 10000"]
  by (simp add: DIAGONAL_RANGE_def ex_diagonal_a scale_points_def)






lemma as_float32_result:
  assumes "img < length (image_objs h)"
    and "pixels_ref (image_objs h ! img) < length (arrays h)"
  shows "as_float32 cast h img =
           Some (length (image_objs h),
                 \<lparr>arrays = arrays h @ [arrays h ! pixels_ref (image_objs h ! img),
                     (arrays h ! pixels_ref (image_objs h ! img))
                       \<lparr>dtype := Float32,
                        elems := map (cast Float32) (elems (arrays h ! pixels_ref (image_objs h ! img)))\<rparr>],
                  image_objs = image_objs h @
                     [(image_objs h ! img)\<lparr>pixels_ref := Suc (length (arrays h))\<rparr>]\<rparr>)"
  using assms
  by (simp add: as_float32_def copy_image_def deref_def alloc_array_def alloc_image_def
      astype_def set_pixels_def nth_append)

text \<open>
  Claim C9. \<open>as_float32\<close> does not write to its input: on an image whose pixel array is in
  the store it returns a new object; every image object and every array that was in the
  store before is as it was, the input image and its pixel array (values and element type)
  among them; the returned object has the other fields of the input and refers to a new
  array that holds the input's pixels cast to 32-bit floats.
\<close>

theorem as_float32_leaves_input:
  assumes "deref (image_objs h) img = Some i"
    and "deref (arrays h) (pixels_ref i) = Some a"
  shows "\<exists>r h' i'.
           as_float32 cast h img = Some (r, h') \<and>
           r \<noteq> img \<and>
           (\<forall>x < length (image_objs h). deref (image_objs h') x = deref (image_objs h) x) \<and>
           (\<forall>x < length (arrays h). deref (arrays h') x = deref (arrays h) x) \<and>
           deref (image_objs h') r = Some i' \<and>
           other_fields i' = other_fields i \<and>
           pixels_ref i' \<noteq> pixels_ref i \<and>
           deref (arrays h') (pixels_ref i') =
             Some (a\<lparr>dtype := Float32, elems := map (cast Float32) (elems a)\<rparr>)"
proof -
  from assms(1) have img: "img < length (image_objs h)" and i: "image_objs h ! img = i"
    by (auto simp: deref_def split: if_splits)
  from assms(2) have p: "pixels_ref i < length (arrays h)" and a: "arrays h ! pixels_ref i = a"
    by (auto simp: deref_def split: if_splits)
  have p': "pixels_ref (image_objs h ! img) < length (arrays h)"
    using p i by simp
  show ?thesis
    unfolding as_float32_result [OF img p']
    using img p by (simp add: deref_def nth_append i a)
qed

theorem as_float32_leaves_input_witness:
  "deref (image_objs \<lparr>arrays = [\<lparr>dtype = Float64, dims = [1, 2], elems = [1 / 3, 2]\<rparr>],
                      image_objs = [\<lparr>pixels_ref = 0, other_fields = ''landmarks''\<rparr>]\<rparr>) 0
     = Some \<lparr>pixels_ref = 0, other_fields = ''landmarks''\<rparr> \<and>
   deref (arrays \<lparr>arrays = [\<lparr>dtype = Float64, dims = [1, 2], elems = [1 / 3, 2]\<rparr>],
                  image_objs = [\<lparr>pixels_ref = 0, other_fields = ''landmarks''\<rparr>]\<rparr>) 0
     = Some \<lparr>dtype = Float64, dims = [1, 2], elems = [1 / 3, 2]\<rparr> \<and>
   (\<exists>r h' i'.
      as_float32 (\<lambda>t x. if t = Float32 then real_of_int \<lfloor>x * 8\<rfloor> / 8 else x)
        \<lparr>arrays = [\<lparr>dtype = Float64, dims = [1, 2], elems = [1 / 3, 2]\<rparr>],
         image_objs = [\<lparr>pixels_ref = 0, other_fields = ''landmarks''\<rparr>]\<rparr> 0 = Some (r, h') \<and>
      r \<noteq> 0 \<and>
      deref (image_objs h') 0 = Some \<lparr>pixels_ref = 0, other_fields = ''landmarks''\<rparr> \<and>
      deref (arrays h') 0 = Some \<lparr>dtype = Float64, dims = [1, 2], elems = [1 / 3, 2]\<rparr> \<and>
      deref (image_objs h') r = Some i' \<and>
      other_fields i' = ''landmarks'' \<and>
      deref (arrays h') (pixels_ref i') = Some \<lparr>dtype = Float32, dims = [1, 2], elems = [1 / 4, 2]\<rparr>)"
proof -
  let ?h = "\<lparr>arrays = [\<lparr>dtype = Float64, dims = [1, 2], elems = [1 / 3, 2]\<rparr>],
             image_objs = [\<lparr>pixels_ref = 0, other_fields = ''landmarks''\<rparr>]\<rparr>"
  have 1: "deref (image_objs ?h) 0 = Some \<lparr>pixels_ref = 0, other_fields = ''landmarks''\<rparr>"
    by (simp add: deref_def)
  have 2: "deref (arrays ?h) (pixels_ref \<lparr>pixels_ref = 0, other_fields = ''landmarks''\<rparr>)
             = Some \<lparr>dtype = Float64, dims = [1, 2], elems = [1 / 3, 2]\<rparr>"
    by (simp add: deref_def)
  have fl: "\<lfloor>8 / 3 :: real\<rfloor> = 2" by linarith
  from as_float32_leaves_input [OF 1 2, of "\<lambda>t x. if t = Float32 then real_of_int \<lfloor>x * 8\<rfloor> / 8 else x"]
  obtain r h' i' where
    "as_float32 (\<lambda>t x. if t = Float32 then real_of_int \<lfloor>x * 8\<rfloor> / 8 else x) ?h 0 = Some (r, h')"
    "r \<noteq> 0"
    "\<forall>x < length (image_objs ?h). deref (image_objs h') x = deref (image_objs ?h) x"
    "\<forall>x < length (arrays ?h). deref (arrays h') x = deref (arrays ?h) x"
    "deref (image_objs h') r = Some i'"
    "other_fields i' = ''landmarks''"
    "deref (arrays h') (pixels_ref i') =
       Some (\<lparr>dtype = Float64, dims = [1, 2], elems = [1 / 3, 2]\<rparr>
               \<lparr>dtype := Float32,
                elems := map ((\<lambda>t x. if t = Float32 then real_of_int \<lfloor>x * 8\<rfloor> / 8 else x) Float32)
                           (elems \<lparr>dtype = Float64, dims = [1, 2], elems = [1 / 3, 2]\<rparr>)\<rparr>)"
    by auto
  then show ?thesis
    using 1 2 by (simp add: fl) 
qed

text \<open>
  Claim C10. The result of \<open>load_data_with_feature_sample\<close>, and the state it leaves, do
  not depend on \<open>err_proportion\<close>: any two values give equal results on the same path in
  the same state.
\<close>

theorem err_proportion_has_no_effect:
  "load_data_with_feature_sample env img_path e1 s = load_data_with_feature_sample env img_path e2 s"
  by (simp add: load_data_with_feature_sample_def)

text \<open>
  Claim C8. The exported object holds exactly three entries: the texture model it was
  given, the diagonal constant \<open>DIAGONAL_RANGE\<close> that the normalization uses, and the
  function \<open>FEATURE_F\<close> that the feature extraction uses.
\<close>

theorem exported_object_metadata:
  "exported_object env itw_texture_model =
     [(''texture_model'', Model itw_texture_model),
      (''diagonal_range'', Number DIAGONAL_RANGE),
      (''feature_function'', Function (FEATURE_F env))]"
  by (simp add: exported_object_def DIAGONAL_RANGE_def FEATURE_F_def)

section \<open>The lazy sequence and the cache\<close>

lemma alike_refl: "alike env s s"
  by (simp add: alike_def)

lemma alike_trans: "alike env s s2 \<Longrightarrow> alike env s2 s3 \<Longrightarrow> alike env s s3"
  by (simp add: alike_def)

lemma load_trilist_fst: "fst (load_trilist env s) = effective_trilist env s"
  by (simp add: load_trilist_def effective_trilist_def split: option.split sum.split)

lemma load_trilist_snd: "alike env s (snd (load_trilist env s))"
  by (simp add: load_trilist_def effective_trilist_def alike_def load_trilist_body_def loadmat_def
      split: option.split sum.split)

lemma convert_snd: "alike env s (snd (convert_raw_3d_fit_to_img_trimesh_fit env raw img s))"
proof -
  obtain r0 s0 where l: "load_trilist env s = (r0, s0)" by (cases "load_trilist env s")
  have "alike env s s0" using load_trilist_snd [of env s] by (simp add: l)
  then show ?thesis
    by (simp add: convert_raw_3d_fit_to_img_trimesh_fit_def l alike_refl split: sum.split)
qed

lemma convert_fst:
  assumes "alike env s s2"
  shows "fst (convert_raw_3d_fit_to_img_trimesh_fit env raw img s2) =
         fst (convert_raw_3d_fit_to_img_trimesh_fit env raw img s)"
proof -
  obtain r0 s0 where l: "load_trilist env s = (r0, s0)" by (cases "load_trilist env s")
  obtain r2 s02 where l2: "load_trilist env s2 = (r2, s02)" by (cases "load_trilist env s2")
  have "r2 = r0"
    using load_trilist_fst [of env s] load_trilist_fst [of env s2] assms
    by (simp add: l l2 alike_def)
  then show ?thesis
    by (simp add: convert_raw_3d_fit_to_img_trimesh_fit_def l l2 split: sum.split)
qed

lemma load_img_and_fit_snd: "alike env s (snd (load_img_and_fit env p s))"
proof -
  have "alike env s (snd (case convert_raw_3d_fit_to_img_trimesh_fit env raw img s of
           (Inl e, s') \<Rightarrow> (Inl e, s')
         | (Inr fit_trimesh_3d, s') \<Rightarrow> (Inr (img, fit_trimesh_3d), s')))" for raw img
    using convert_snd [of env s raw img]
    by (cases "convert_raw_3d_fit_to_img_trimesh_fit env raw img s")
      (simp split: sum.split)
  then show ?thesis
    by (simp add: load_img_and_fit_def alike_refl Let_def split: sum.split option.split)
qed

lemma load_img_and_fit_fst:
  assumes "alike env s s2"
  shows "fst (load_img_and_fit env p s2) = fst (load_img_and_fit env p s)"
proof -
  have f: "import_image s2 = import_image s" "loadmat s2 = loadmat s"
    using assms by (auto simp: alike_def import_image_def loadmat_def fun_eq_iff)
  have "fst (case convert_raw_3d_fit_to_img_trimesh_fit env raw img s2 of
           (Inl e, s') \<Rightarrow> (Inl e, s')
         | (Inr fit_trimesh_3d, s') \<Rightarrow> (Inr (img, fit_trimesh_3d), s')) =
        fst (case convert_raw_3d_fit_to_img_trimesh_fit env raw img s of
           (Inl e, s') \<Rightarrow> (Inl e, s')
         | (Inr fit_trimesh_3d, s') \<Rightarrow> (Inr (img, fit_trimesh_3d), s'))" for raw img
    using convert_fst [OF assms, of raw img]
    by (cases "convert_raw_3d_fit_to_img_trimesh_fit env raw img s";
        cases "convert_raw_3d_fit_to_img_trimesh_fit env raw img s2")
      (simp split: sum.split)
  then show ?thesis
    by (simp add: load_img_and_fit_def f Let_def split: sum.split option.split)
qed

lemma sample_snd: "alike env s (snd (load_data_with_feature_sample env p e s))"
proof -
  obtain r0 s0 where l: "load_img_and_fit env p s = (r0, s0)" by (cases "load_img_and_fit env p s")
  have "alike env s s0" using load_img_and_fit_snd [of env s p] by (simp add: l)
  then show ?thesis
    by (simp add: load_data_with_feature_sample_def l Let_def
        split: sum.split prod.split option.split list.split)
qed

lemma sample_fst:
  assumes "alike env s s2"
  shows "fst (load_data_with_feature_sample env p e s2) =
         fst (load_data_with_feature_sample env p e s)"
proof -
  obtain r0 s0 where l: "load_img_and_fit env p s = (r0, s0)" by (cases "load_img_and_fit env p s")
  obtain r2 s02 where l2: "load_img_and_fit env p s2 = (r2, s02)"
    by (cases "load_img_and_fit env p s2")
  have "r2 = r0"
    using load_img_and_fit_fst [OF assms, of p] by (simp add: l l2)
  then show ?thesis
    by (simp add: load_data_with_feature_sample_def l l2 Let_def
        split: sum.split prod.split option.split list.split)
qed

lemma getitem_imgs_features_and_fits:
  "getitem (imgs_features_and_fits env img_paths) i s =
     (let n = int (length img_paths); j = (if i < 0 then n + i else i)
      in if 0 \<le> j \<and> j < n
         then load_data_with_feature_sample env (img_paths ! nat j) (1 / 10000) s
         else (Inl IndexError, s))"
  by (simp add: getitem_def imgs_features_and_fits_def lazy_map_def init_from_iterable_def Let_def)

lemma getitem_snd: "alike env s (snd (getitem (imgs_features_and_fits env img_paths) i s))"
  by (simp add: getitem_imgs_features_and_fits Let_def sample_snd alike_refl)

lemma getitem_fst:
  "alike env s s2 \<Longrightarrow>
     fst (getitem (imgs_features_and_fits env img_paths) i s2) =
     fst (getitem (imgs_features_and_fits env img_paths) i s)"
  by (simp add: getitem_imgs_features_and_fits Let_def sample_fst)

lemma access_all_alike:
  "alike env s (access_all (imgs_features_and_fits env img_paths) js s)"
proof (induction js arbitrary: s)
  case Nil
  show ?case by (simp add: alike_refl)
next
  case (Cons j js)
  show ?case
    using alike_trans [OF getitem_snd Cons.IH] by simp
qed

text \<open>
  Claim C7. The lazy sequence can be asked again: whatever elements were asked for in
  between, at the positions \<open>js\<close>, asking for element \<open>i\<close> gives the result it gave at
  first, the same images and the same mesh, or the same error. Nothing but the calls
  themselves touches the state in between, so the files are unchanged. With \<open>js = [i]\<close>
  this is element \<open>i\<close> asked for twice.
\<close>

theorem lazy_sequence_restartable:
  "fst (getitem (imgs_features_and_fits env img_paths) i
          (access_all (imgs_features_and_fits env img_paths) js s)) =
   fst (getitem (imgs_features_and_fits env img_paths) i s)"
  by (rule getitem_fst [OF access_all_alike])

lemma load_img_and_fit_missing_fit:
  assumes "fit_path_of env p = Inr fit_path" and "mat_files s fit_path = None"
  shows "load_img_and_fit env p s =
           (Inl (case image_files s p of
                   None \<Rightarrow> ImageLoadError p
                 | Some raw_img \<Rightarrow>
                     (case as_greyscale env raw_img of
                        Inl e \<Rightarrow> e
                      | Inr img \<Rightarrow> MatLoadError fit_path)), s)"
  using assms
  by (simp add: load_img_and_fit_def import_image_def loadmat_def
      split: option.split sum.split)

text \<open>
  Claim C5. When the fit file of the image path at position \<open>i\<close> is missing, the lazy
  sequence is built all the same, with an element for every path; asking for element \<open>i\<close>
  raises an error of the load and changes nothing: the load error of the fit file when the
  image was read and converted to greyscale, and otherwise the error of reading or of
  converting the image, which comes first; and every position answers after that as it
  would have before.
\<close>

theorem missing_fit_raises_at_access:
  assumes "i < length img_paths"
    and "fit_path_of env (img_paths ! i) = Inr fit_path"
    and "mat_files s fit_path = None"
  shows "length (callables (imgs_features_and_fits env img_paths)) = length img_paths \<and>
         getitem (imgs_features_and_fits env img_paths) (int i) s =
           (Inl (case image_files s (img_paths ! i) of
                   None \<Rightarrow> ImageLoadError (img_paths ! i)
                 | Some raw_img \<Rightarrow>
                     (case as_greyscale env raw_img of
                        Inl e \<Rightarrow> e
                      | Inr img \<Rightarrow> MatLoadError fit_path)), s) \<and>
         (\<forall>j. getitem (imgs_features_and_fits env img_paths) j
                 (snd (getitem (imgs_features_and_fits env img_paths) (int i) s)) =
               getitem (imgs_features_and_fits env img_paths) j s)"
proof -
  have len: "length (callables (imgs_features_and_fits env img_paths)) = length img_paths"
    by (simp add: imgs_features_and_fits_def lazy_map_def init_from_iterable_def)
  have get: "getitem (imgs_features_and_fits env img_paths) (int i) s =
           (Inl (case image_files s (img_paths ! i) of
                   None \<Rightarrow> ImageLoadError (img_paths ! i)
                 | Some raw_img \<Rightarrow>
                     (case as_greyscale env raw_img of
                        Inl e \<Rightarrow> e
                      | Inr img \<Rightarrow> MatLoadError fit_path)), s)"
    using assms(1)
    by (simp add: getitem_imgs_features_and_fits load_data_with_feature_sample_def
        load_img_and_fit_missing_fit [OF assms(2,3)])
  show ?thesis
    by (simp add: len get)
qed

lemma ex_fit_path_c:
  "fit_path_of ex_env ex_path_c =
     Inr [''home'', ''user'', ''Dropbox'', ''itwmm_src_data'', ''300W-3D-Face'', ''AFW'', ''c.mat'']"
  by code_simp

lemma ex_fit_path_e:
  "fit_path_of ex_env ex_path_e =
     Inr [''home'', ''user'', ''Dropbox'', ''itwmm_src_data'', ''300W-3D-Face'', ''AFW'', ''e.mat'']"
  by code_simp

lemma ex_no_fit:
  "mat_files ex_state
     [''home'', ''user'', ''Dropbox'', ''itwmm_src_data'', ''300W-3D-Face'', ''AFW'', ''c.mat''] = None"
  "mat_files ex_state
     [''home'', ''user'', ''Dropbox'', ''itwmm_src_data'', ''300W-3D-Face'', ''AFW'', ''e.mat''] = None"
  by (simp_all add: ex_state_def initial_state_def ex_mats_def)

lemma ex_image_c_e:
  "image_files ex_state ex_path_c = Some ex_image"
  "image_files ex_state ex_path_e = Some ex_grey"
  by (simp_all add: ex_state_def initial_state_def ex_images_def ex_path_c_def ex_path_d_def
      ex_path_e_def)

theorem missing_fit_raises_at_access_witness:
  "(1::nat) < length [ex_path_a, ex_path_c, ex_path_b, ex_path_e] \<and>
   fit_path_of ex_env ([ex_path_a, ex_path_c, ex_path_b, ex_path_e] ! 1) =
     Inr [''home'', ''user'', ''Dropbox'', ''itwmm_src_data'', ''300W-3D-Face'', ''AFW'', ''c.mat''] \<and>
   mat_files ex_state
     [''home'', ''user'', ''Dropbox'', ''itwmm_src_data'', ''300W-3D-Face'', ''AFW'', ''c.mat''] = None \<and>
   length (callables (imgs_features_and_fits ex_env [ex_path_a, ex_path_c, ex_path_b, ex_path_e])) = 4 \<and>
   getitem (imgs_features_and_fits ex_env [ex_path_a, ex_path_c, ex_path_b, ex_path_e]) 1 ex_state =
     (Inl (MatLoadError
        [''home'', ''user'', ''Dropbox'', ''itwmm_src_data'', ''300W-3D-Face'', ''AFW'', ''c.mat'']),
      ex_state) \<and>
   getitem (imgs_features_and_fits ex_env [ex_path_a, ex_path_c, ex_path_b, ex_path_e]) 2
     (snd (getitem (imgs_features_and_fits ex_env [ex_path_a, ex_path_c, ex_path_b, ex_path_e]) 1
             ex_state)) =
     (Inr (\<lparr>shape = (150, 100), pixels = 1, landmarks = [(''fit_2d'', [[149, 0], [5, 108], [77, 54]])]\<rparr>,
           \<lparr>shape = (150, 100), pixels = 8, landmarks = [(''fit_2d'', [[149, 0], [5, 108], [77, 54]])]\<rparr>,
           \<lparr>points = [[149, 0, 0], [5, 108, - 10], [77, 54, - 5]], trilist = [[1, 0, 2]]\<rparr>),
      ex_state_loaded) \<and>
   (3::nat) < length [ex_path_a, ex_path_c, ex_path_b, ex_path_e] \<and>
   fit_path_of ex_env ([ex_path_a, ex_path_c, ex_path_b, ex_path_e] ! 3) =
     Inr [''home'', ''user'', ''Dropbox'', ''itwmm_src_data'', ''300W-3D-Face'', ''AFW'', ''e.mat''] \<and>
   mat_files ex_state
     [''home'', ''user'', ''Dropbox'', ''itwmm_src_data'', ''300W-3D-Face'', ''AFW'', ''e.mat''] = None \<and>
   getitem (imgs_features_and_fits ex_env [ex_path_a, ex_path_c, ex_path_b, ex_path_e]) 3 ex_state =
     (Inl ValueError, ex_state)"
proof -
  let ?paths = "[ex_path_a, ex_path_c, ex_path_b, ex_path_e]"
  have 1: "(1::nat) < length ?paths" and 3: "(3::nat) < length ?paths" by simp_all
  have 2: "fit_path_of ex_env (?paths ! 1) =
     Inr [''home'', ''user'', ''Dropbox'', ''itwmm_src_data'', ''300W-3D-Face'', ''AFW'', ''c.mat'']"
    by (simp add: ex_fit_path_c)
  have 4: "fit_path_of ex_env (?paths ! 3) =
     Inr [''home'', ''user'', ''Dropbox'', ''itwmm_src_data'', ''300W-3D-Face'', ''AFW'', ''e.mat'']"
    by (simp add: ex_fit_path_e)
  have b: "getitem (imgs_features_and_fits ex_env ?paths) 2 ex_state =
     (Inr (\<lparr>shape = (150, 100), pixels = 1, landmarks = [(''fit_2d'', [[149, 0], [5, 108], [77, 54]])]\<rparr>,
           \<lparr>shape = (150, 100), pixels = 8, landmarks = [(''fit_2d'', [[149, 0], [5, 108], [77, 54]])]\<rparr>,
           \<lparr>points = [[149, 0, 0], [5, 108, - 10], [77, 54, - 5]], trilist = [[1, 0, 2]]\<rparr>),
      ex_state_loaded)"
    by (simp add: getitem_imgs_features_and_fits ex_sample_b)
  have c: "getitem (imgs_features_and_fits ex_env ?paths) 1 ex_state =
     (Inl (MatLoadError
        [''home'', ''user'', ''Dropbox'', ''itwmm_src_data'', ''300W-3D-Face'', ''AFW'', ''c.mat'']),
      ex_state)"
    and c': "snd (getitem (imgs_features_and_fits ex_env ?paths) 1 ex_state) = ex_state"
    using missing_fit_raises_at_access [OF 1 2 ex_no_fit(1)]
    by (simp_all add: ex_image_c_e ex_greyscale)
  have e: "getitem (imgs_features_and_fits ex_env ?paths) 3 ex_state = (Inl ValueError, ex_state)"
    using missing_fit_raises_at_access [OF 3 4 ex_no_fit(2)]
    by (simp add: ex_image_c_e ex_greyscale)
  have len: "length (callables (imgs_features_and_fits ex_env ?paths)) = 4"
    using missing_fit_raises_at_access [OF 1 2 ex_no_fit(1)] by simp
  show ?thesis
    using 1 2 3 4 ex_no_fit b c e len by (simp add: c')
qed















end
